theory Spec2Isabelle
  imports Main "HOL-Library.Sublist"
begin

section \<open>Go values shared by both packages of \<^verbatim>\<open>src/sql/db.go\<close>\<close>

text \<open>
  A Go \<^verbatim>\<open>error\<close> is an interface value: \<^verbatim>\<open>nil\<close> is \<open>None\<close>, a non-nil error is
  \<open>Some e\<close>. Two kinds of error are told apart, because \<^verbatim>\<open>os.IsNotExist\<close> tells them
  apart: \<open>ErrNotExist op path\<close> is the \<^verbatim>\<open>*os.PathError\<close> that wraps \<^verbatim>\<open>ENOENT\<close>, and
  \<open>Err msg\<close> is any other error, with the text its \<^verbatim>\<open>Error()\<close> method returns.
\<close>

datatype error = Err string | ErrNotExist string string

fun error_text :: "error \<Rightarrow> string" where
  "error_text (Err m) = m"
| "error_text (ErrNotExist opn path) = opn @ '' '' @ path @ '': no such file or directory''"

fun IsNotExist :: "error \<Rightarrow> bool" where
  "IsNotExist (ErrNotExist opn path) = True"
| "IsNotExist (Err m) = False"

text \<open>
  \<^verbatim>\<open>interface{}\<close>, the type of the argument of \<^verbatim>\<open>panic\<close> and of the result of
  \<^verbatim>\<open>recover\<close>: the nil interface, an error, or any other value, kept as the text
  that the verb \<^verbatim>\<open>%v\<close> prints for it.
\<close>

datatype any = NilAny | ErrAny error | ValAny string

fun fmt_v :: "any \<Rightarrow> string" where
  "fmt_v NilAny = ''<nil>''"
| "fmt_v (ErrAny e) = error_text e"
| "fmt_v (ValAny s) = s"

text \<open>
  A call either returns or panics. \<open>Panics v\<close> is a call that ran \<^verbatim>\<open>panic(v)\<close> (or hit
  a run-time panic with value \<open>v\<close>) and did not recover it.
\<close>

datatype 'a outcome = Returns 'a | Panics any

text \<open>
  What \<^verbatim>\<open>recover\<close> sees after \<^verbatim>\<open>panic(v)\<close> depends on the runtime setting \<^verbatim>\<open>panicnil\<close>, which
  the source does not fix and which is therefore a parameter. With \<^verbatim>\<open>panicnil=0\<close> (the
  default when the \<^verbatim>\<open>go\<close> line of the main module is 1.21 or later) \<^verbatim>\<open>panic(nil)\<close> raises
  a \<^verbatim>\<open>*runtime.PanicNilError\<close>, so the goroutine never panics with nil. With
  \<^verbatim>\<open>panicnil=1\<close> (a \<^verbatim>\<open>go\<close> line below 1.21, or \<^verbatim>\<open>GODEBUG=panicnil=1\<close>) the goroutine
  panics with nil itself and \<^verbatim>\<open>recover\<close> returns nil. \<open>gopanic panicnil v\<close> is the value
  the goroutine panics with after \<^verbatim>\<open>panic(v)\<close>.
\<close>

definition PanicNilError :: any where
  "PanicNilError = ErrAny (Err ''panic called with nil argument (obsolete)'')"

definition gopanic :: "bool \<Rightarrow> any \<Rightarrow> any" where
  "gopanic panicnil v = (if v = NilAny \<and> \<not> panicnil then PanicNilError else v)"

section \<open>Package \<^verbatim>\<open>sql\<close>\<close>

subsection \<open>Contexts\<close>

text \<open>
  The contexts of package \<^verbatim>\<open>context\<close>. Times and durations are nanosecond counts.
  \<open>hasDeadline\<close> is the second result of \<^verbatim>\<open>ctx.Deadline()\<close>: a derived context inherits
  the deadline of its parent, and \<^verbatim>\<open>WithDeadline\<close> and \<^verbatim>\<open>WithTimeout\<close> always yield a
  context with a deadline (their own or the earlier one of the parent).
\<close>

datatype "context" =
    Background
  | WithCancel "context"
  | WithValue "context" string string
  | WithDeadline "context" int
  | WithTimeout "context" int

fun hasDeadline :: "context \<Rightarrow> bool" where
  "hasDeadline Background = False"
| "hasDeadline (WithCancel p) = hasDeadline p"
| "hasDeadline (WithValue p k v) = hasDeadline p"
| "hasDeadline (WithDeadline p t) = True"
| "hasDeadline (WithTimeout p d) = True"

subsection \<open>Configuration, handles and the ORM\<close>

record sql_Config =
  Debug :: bool
  Dialect :: string
  URL :: string
  MaxOpenConns :: int
  MaxIdleConns :: int
  ConnMaxLifetime :: int
  TransTimeout :: int

text \<open>
  A transaction handle, the \<^verbatim>\<open>*gorm.DB\<close> that \<^verbatim>\<open>BeginTx\<close> returns. The library is
  not part of the repository, so the behaviour of its two methods in the run at hand is
  data: \<open>Rollback\<close> is the outcome of \<^verbatim>\<open>tx.Rollback()\<close> (its result is discarded by the
  caller) and \<open>Commit\<close> is the outcome of \<^verbatim>\<open>tx.Commit().Error\<close>.
\<close>

record tx =
  Rollback :: "unit outcome"
  Commit :: "error option outcome"

text \<open>
  The \<^verbatim>\<open>*gorm.DB\<close> of a connection: the options \<^verbatim>\<open>Open\<close> sets on it, and the outcome
  of \<^verbatim>\<open>BeginTx\<close> for each context.
\<close>

record gorm_DB =
  singularTable :: bool
  logMode :: bool
  maxOpenConns :: "int option"
  maxIdleConns :: "int option"
  connMaxLifetime :: "int option"
  BeginTx :: "context \<Rightarrow> tx outcome"

record goqu_Database =
  goqu_dialect :: string
  goqu_db :: gorm_DB

record DataBase =
  DB :: gorm_DB
  cfg :: sql_Config
  goqu :: goqu_Database

text \<open>
  \<^verbatim>\<open>Open\<close>: \<open>gorm_Open\<close> is \<^verbatim>\<open>gorm.Open\<close>, a parameter. The pool options are set
  only when the configured value is not zero.
\<close>

definition Open :: "(string \<Rightarrow> string \<Rightarrow> error + gorm_DB) \<Rightarrow> sql_Config \<Rightarrow> DataBase option \<times> error option" where
  "Open gorm_Open c =
     (case gorm_Open (Dialect c) (URL c) of
        Inl err \<Rightarrow> (None, Some err)
      | Inr db0 \<Rightarrow>
          (let db1 = db0\<lparr>singularTable := True\<rparr>;
               db2 = (if Debug c then db1\<lparr>logMode := True\<rparr> else db1);
               db3 = (if MaxOpenConns c \<noteq> 0 then db2\<lparr>maxOpenConns := Some (MaxOpenConns c)\<rparr> else db2);
               db4 = (if MaxIdleConns c \<noteq> 0 then db3\<lparr>maxIdleConns := Some (MaxIdleConns c)\<rparr> else db3);
               db5 = (if ConnMaxLifetime c \<noteq> 0 then db4\<lparr>connMaxLifetime := Some (ConnMaxLifetime c)\<rparr> else db4)
           in (Some \<lparr>DB = db5, cfg = c, goqu = \<lparr>goqu_dialect = Dialect c, goqu_db = db5\<rparr>\<rparr>, None)))"

text \<open>
  \<^verbatim>\<open>Inject\<close> assigns both results of \<^verbatim>\<open>Open\<close>, the handle to the package variable
  \<^verbatim>\<open>DefaultDB\<close>, and panics with the error when it is not nil. The state is the value of
  \<^verbatim>\<open>DefaultDB\<close> (\<open>None\<close> is the nil pointer).
\<close>

definition Inject :: "(string \<Rightarrow> string \<Rightarrow> error + gorm_DB) \<Rightarrow> sql_Config \<Rightarrow> DataBase option \<Rightarrow> unit outcome \<times> DataBase option" where
  "Inject gorm_Open c DefaultDB =
     (case Open gorm_Open c of
        (db, err) \<Rightarrow>
          (case err of
             Some e \<Rightarrow> (Panics (ErrAny e), db)
           | None \<Rightarrow> (Returns (), db)))"

subsection \<open>The transaction executor\<close>

text \<open>
  The calls \<^verbatim>\<open>TransactionCtx\<close> itself makes on the context package, the handle, the
  unit of work and the transaction, in the order it makes them.
\<close>

datatype call =
    CallWithTimeout "context" int
  | CallBeginTx "context"
  | CallF
  | CallRollback
  | CallCommit
  | CallCancel "context"

text \<open>
  The frame of one call of \<^verbatim>\<open>TransactionCtx\<close>: the named result \<^verbatim>\<open>err\<close>, the value
  the goroutine is panicking with (\<open>None\<close> when it is not panicking), and the calls made.
\<close>

record frame =
  err :: "error option"
  panicking :: "any option"
  calls :: "call list"

text \<open>
  \<^verbatim>\<open>errors.Errorf("panic[%s] \nret[%v]", string(buf[:n]), ret)\<close>, where \<^verbatim>\<open>buf\<close> holds
  the first 4096 bytes of the stack trace \<open>stk\<close> that \<^verbatim>\<open>runtime.Stack\<close> formats.
\<close>

definition stack_buf :: "string \<Rightarrow> string" where
  "stack_buf stk = take 4096 stk"

definition panic_error :: "string \<Rightarrow> any \<Rightarrow> error" where
  "panic_error stk ret =
     Err (''panic['' @ stack_buf stk @ ''] '' @ [CHR 0x0A] @ ''ret['' @ fmt_v ret @ '']'')"

text \<open>\<^verbatim>\<open>recover()\<close> in a deferred function: the panic value, or nil when not panicking.\<close>

definition recover :: "frame \<Rightarrow> any" where
  "recover fr = (case panicking fr of None \<Rightarrow> NilAny | Some v \<Rightarrow> v)"

text \<open>
  The deferred closure of lines 132 to 138. Calling \<^verbatim>\<open>recover\<close> ends the panic, also when
  the value is nil; the named result is overwritten only when the recovered value is not
  nil.
\<close>

definition deferred_recover :: "string \<Rightarrow> frame \<Rightarrow> frame" where
  "deferred_recover stk fr =
     (let ret = recover fr;
          fr' = fr\<lparr>panicking := None\<rparr>
      in if ret \<noteq> NilAny then fr'\<lparr>err := Some (panic_error stk ret)\<rparr> else fr')"

text \<open>
  Lines 140 to 147, run on the transaction \<open>t\<close>: a panic of the unit of work, of
  \<^verbatim>\<open>Rollback\<close> or of \<^verbatim>\<open>Commit\<close> leaves the body at once, with \<^verbatim>\<open>err\<close> as it was then.
\<close>

definition body :: "bool \<Rightarrow> tx \<Rightarrow> (tx \<Rightarrow> error option outcome) \<Rightarrow> frame" where
  "body panicnil t f =
     (case f t of
        Panics v \<Rightarrow> \<lparr>err = None, panicking = Some (gopanic panicnil v), calls = [CallF]\<rparr>
      | Returns e \<Rightarrow>
          (if e \<noteq> None then
             (case Rollback t of
                Panics v \<Rightarrow> \<lparr>err = e, panicking = Some (gopanic panicnil v), calls = [CallF, CallRollback]\<rparr>
              | Returns u \<Rightarrow> \<lparr>err = e, panicking = None, calls = [CallF, CallRollback]\<rparr>)
           else
             (case Commit t of
                Panics v \<Rightarrow> \<lparr>err = e, panicking = Some (gopanic panicnil v), calls = [CallF, CallCommit]\<rparr>
              | Returns ce \<Rightarrow> \<lparr>err = ce, panicking = None, calls = [CallF, CallCommit]\<rparr>)))"

text \<open>
  From \<^verbatim>\<open>BeginTx\<close> to the return. The closure with \<^verbatim>\<open>recover\<close> is deferred after
  \<^verbatim>\<open>BeginTx\<close> has returned, so a panic of \<^verbatim>\<open>BeginTx\<close> itself is not recovered.
\<close>

definition begin_and_run :: "bool \<Rightarrow> string \<Rightarrow> DataBase \<Rightarrow> context \<Rightarrow> (tx \<Rightarrow> error option outcome) \<Rightarrow> frame" where
  "begin_and_run panicnil stk db c f =
     (case BeginTx (DB db) c of
        Panics v \<Rightarrow> \<lparr>err = None, panicking = Some (gopanic panicnil v), calls = [CallBeginTx c]\<rparr>
      | Returns t \<Rightarrow>
          (let fr = deferred_recover stk (body panicnil t f)
           in fr\<lparr>calls := CallBeginTx c # calls fr\<rparr>))"

definition frame_result :: "frame \<Rightarrow> error option outcome \<times> call list" where
  "frame_result fr =
     (case panicking fr of None \<Rightarrow> (Returns (err fr), calls fr) | Some v \<Rightarrow> (Panics v, calls fr))"

text \<open>
  \<^verbatim>\<open>TransactionCtx\<close>. In the first branch \<^verbatim>\<open>cancel\<close> is deferred first, so it runs
  last, whether the body returned or panicked.
\<close>

definition TransactionCtx :: "bool \<Rightarrow> string \<Rightarrow> DataBase \<Rightarrow> context \<Rightarrow> (tx \<Rightarrow> error option outcome) \<Rightarrow> error option outcome \<times> call list" where
  "TransactionCtx panicnil stk db ctx f =
     (if TransTimeout (cfg db) \<noteq> 0 \<and> \<not> hasDeadline ctx then
        (let ctxt = WithTimeout ctx (TransTimeout (cfg db));
             fr = begin_and_run panicnil stk db ctxt f
         in frame_result (fr\<lparr>calls := CallWithTimeout ctx (TransTimeout (cfg db)) # calls fr @ [CallCancel ctxt]\<rparr>))
      else frame_result (begin_and_run panicnil stk db ctx f))"

definition Transaction :: "bool \<Rightarrow> string \<Rightarrow> DataBase \<Rightarrow> (tx \<Rightarrow> error option outcome) \<Rightarrow> error option outcome \<times> call list" where
  "Transaction panicnil stk db f = TransactionCtx panicnil stk db Background f"

text \<open>The context the transaction is begun with, read off the branch of line 124.\<close>

definition tx_context :: "DataBase \<Rightarrow> context \<Rightarrow> context" where
  "tx_context db ctx =
     (if TransTimeout (cfg db) \<noteq> 0 \<and> \<not> hasDeadline ctx
      then WithTimeout ctx (TransTimeout (cfg db)) else ctx)"

section \<open>Package \<^verbatim>\<open>log\<close>\<close>

subsection \<open>Strings\<close>

text \<open>
  \<^verbatim>\<open>strings.Split(s, "/")\<close> and \<^verbatim>\<open>strings.Join\<close>. \<open>Split\<close> is given for a separator of
  one byte, the only use the source makes of it. Its result is never empty: a string with
  \<open>n\<close> separators splits into \<open>n + 1\<close> pieces.
\<close>

fun Split :: "string \<Rightarrow> char \<Rightarrow> string list" where
  "Split [] sep = [[]]"
| "Split (x # xs) sep =
     (if x = sep then [] # Split xs sep
      else (case Split xs sep of [] \<Rightarrow> [[x]] | y # ys \<Rightarrow> (x # y) # ys))"

fun Join :: "string list \<Rightarrow> string \<Rightarrow> string" where
  "Join [] sep = []"
| "Join [a] sep = a"
| "Join (a # b # r) sep = a @ sep @ Join (b # r) sep"

definition getDir :: "string \<Rightarrow> string" where
  "getDir path =
     (let paths = Split path (CHR ''/'')
      in Join (take (length paths - 1) paths) ''/'')"

text \<open>
  \<^verbatim>\<open>strings.ToLower\<close>: a string of ASCII bytes is mapped byte by byte; any other string
  goes through \<^verbatim>\<open>unicode.ToLower\<close>, whose tables are a parameter (\<open>unicode_lower\<close>).
\<close>

definition lower_byte :: "char \<Rightarrow> char" where
  "lower_byte c =
     (if (65::nat) \<le> of_char c \<and> of_char c \<le> (90::nat) then char_of (of_char c + (32::nat)) else c)"

definition ToLower :: "(string \<Rightarrow> string) \<Rightarrow> string \<Rightarrow> string" where
  "ToLower unicode_lower s =
     (if list_all (\<lambda>c. of_char c < (128::nat)) s then map lower_byte s else unicode_lower s)"

subsection \<open>Configuration and the parts of a logger\<close>

text \<open>
  \<open>'k\<close> and \<open>'w\<close> are \<^verbatim>\<open>KafkaConfig\<close> and \<^verbatim>\<open>WebHookConfig\<close>, which the package declares
  in files that are not under \<^verbatim>\<open>src/\<close>. A nil \<^verbatim>\<open>*KafkaConfig\<close> is \<open>None\<close>.
\<close>

record ('k, 'w) log_Config =
  Path :: string
  Level :: string
  Fields :: "string \<rightharpoonup> string"
  MaxSize :: int
  MaxBackups :: int
  MaxAge :: int
  DisableStdout :: bool
  Compress :: bool
  Format :: string
  ForbitTime :: bool
  ForbitLevel :: bool
  Caller :: bool
  Prefix :: string
  Kafka :: "'k option"
  WebHook :: "'w list"
  RotateDay :: int

text \<open>The keys and the line ending of \<^verbatim>\<open>zapcore.EncoderConfig\<close>; its four encoding
  functions are the same in every logger \<^verbatim>\<open>New\<close> builds.\<close>

record EncoderConfig =
  TimeKey :: string
  LevelKey :: string
  NameKey :: string
  CallerKey :: string
  MessageKey :: string
  StacktraceKey :: string
  LineEnding :: string

datatype encoder =
    JSONEncoder EncoderConfig
  | FixEncoder EncoderConfig
  | ConsoleEncoder EncoderConfig

text \<open>
  \<^verbatim>\<open>lumberjack.Logger\<close> and \<^verbatim>\<open>*rotatelogs.RotateLogs\<close>. \<open>RotateLogs pattern link age every\<close>
  is the value \<^verbatim>\<open>rotatelogs.New\<close> builds from its pattern and the three options.
\<close>

record lumberjack =
  Filename :: string
  lj_MaxSize :: int
  lj_MaxBackups :: int
  lj_MaxAge :: int
  lj_Compress :: bool

datatype RotateLogs = RotateLogs string string int int

text \<open>
  A \<^verbatim>\<open>zapcore.WriteSyncer\<close>. \<open>RotateSync None\<close> is \<^verbatim>\<open>zapcore.AddSync\<close> of a nil
  \<^verbatim>\<open>*rotatelogs.RotateLogs\<close>.
\<close>

datatype sink =
    LumberjackSync lumberjack
  | RotateSync "RotateLogs option"
  | Stdout

text \<open>
  A \<^verbatim>\<open>zapcore.Core\<close>: the one \<^verbatim>\<open>zapcore.NewCore\<close> builds, and the cores of
  \<^verbatim>\<open>NewWebHookCore\<close> and \<^verbatim>\<open>NewKafkaCore\<close>, known by the arguments they were built from.
\<close>

datatype ('k, 'w) core =
    NewCore encoder "sink list" int
  | WebHookCore 'w EncoderConfig
  | KafkaCore 'k EncoderConfig

record ('k, 'w) Logger =
  cores :: "('k, 'w) core list"
  addCaller :: bool
  config :: "('k, 'w) log_Config"

datatype ('k, 'w) SugaredLogger = Sugar "('k, 'w) Logger"

subsection \<open>The operating system and the libraries\<close>

text \<open>
  What \<^verbatim>\<open>New\<close> calls outside the repository, as parameters: the error of \<^verbatim>\<open>os.Stat\<close>
  and of \<^verbatim>\<open>os.MkdirAll\<close> on a non-empty path, \<^verbatim>\<open>filepath.IsAbs\<close> and \<^verbatim>\<open>filepath.Abs\<close>,
  \<^verbatim>\<open>rotatelogs.New\<close> (pattern, link name, maximum age, rotation time),
  \<^verbatim>\<open>zapcore.Level.UnmarshalText\<close> (\<open>None\<close> when it fails), the error of \<^verbatim>\<open>NewKafkaCore\<close>
  and \<^verbatim>\<open>unicode.ToLower\<close> mapped over a string.
\<close>

record ('k, 'w) env =
  Stat :: "string \<Rightarrow> error option"
  MkdirAll :: "string \<Rightarrow> error option"
  IsAbs :: "string \<Rightarrow> bool"
  Abs :: "string \<Rightarrow> error + string"
  rotatelogs_New :: "string \<Rightarrow> string \<Rightarrow> int \<Rightarrow> int \<Rightarrow> error + RotateLogs"
  UnmarshalText :: "string \<Rightarrow> int option"
  NewKafkaCore :: "('k, 'w) log_Config \<Rightarrow> EncoderConfig \<Rightarrow> error option"
  unicode_ToLower :: "string \<Rightarrow> string"

text \<open>
  The empty path names no file on any system: \<^verbatim>\<open>stat\<close> and \<^verbatim>\<open>mkdir\<close> fail on it with
  \<^verbatim>\<open>ENOENT\<close>, and \<^verbatim>\<open>os.MkdirAll("")\<close> has no parent to create and returns the error of
  \<^verbatim>\<open>os.Mkdir("")\<close>.
\<close>

definition os_Stat :: "('k, 'w) env \<Rightarrow> string \<Rightarrow> error option" where
  "os_Stat e path = (if path = [] then Some (ErrNotExist ''stat'' []) else Stat e path)"

definition os_MkdirAll :: "('k, 'w) env \<Rightarrow> string \<Rightarrow> error option" where
  "os_MkdirAll e path = (if path = [] then Some (ErrNotExist ''mkdir'' []) else MkdirAll e path)"

definition isPathNotExist :: "('k, 'w) env \<Rightarrow> string \<Rightarrow> bool" where
  "isPathNotExist e path =
     (case os_Stat e path of
        Some er \<Rightarrow> (if IsNotExist er then True else False)
      | None \<Rightarrow> False)"

text \<open>\<^verbatim>\<open>ParseLevel\<close> drops the error of \<^verbatim>\<open>UnmarshalText\<close>; the level is then still zero.\<close>

definition ParseLevel :: "('k, 'w) env \<Rightarrow> string \<Rightarrow> int" where
  "ParseLevel e loglevel = (case UnmarshalText e loglevel of None \<Rightarrow> 0 | Some lv \<Rightarrow> lv)"

text \<open>A product of \<^verbatim>\<open>time.Duration\<close>s, which are 64-bit signed integers.\<close>

definition int64 :: "int \<Rightarrow> int" where
  "int64 x = (x + 2 ^ 63) mod 2 ^ 64 - 2 ^ 63"

definition days :: "int \<Rightarrow> int" where
  "days n = int64 (86400000000000 * n)"

subsection \<open>\<^verbatim>\<open>New\<close> and \<^verbatim>\<open>Init\<close>\<close>

text \<open>
  Lines 258 to 295, the sinks of the configured path. The result is an early
  \<^verbatim>\<open>return nil, err\<close> (\<open>Inl\<close>), or the hooks together with the value the variable
  \<^verbatim>\<open>err\<close> of \<^verbatim>\<open>New\<close> holds after the block. The \<^verbatim>\<open>err\<close> of \<^verbatim>\<open>filepath.Abs\<close> is a new
  variable of its block and is returned; the error of \<^verbatim>\<open>rotatelogs.New\<close> is assigned to
  the outer \<^verbatim>\<open>err\<close> and the hook is appended whatever it is.
\<close>

definition path_hooks :: "('k, 'w) env \<Rightarrow> ('k, 'w) log_Config \<Rightarrow> error + (sink list \<times> error option)" where
  "path_hooks e c =
     (if Path c \<noteq> [] then
        (let dir = getDir (Path c)
         in case (if isPathNotExist e dir then os_MkdirAll e dir else None) of
              Some er \<Rightarrow> Inl er
            | None \<Rightarrow>
                (let hooks = (if MaxSize c \<noteq> 0
                              then [LumberjackSync \<lparr>Filename = Path c, lj_MaxSize = MaxSize c,
                                      lj_MaxBackups = MaxBackups c, lj_MaxAge = MaxAge c,
                                      lj_Compress = Compress c\<rparr>]
                              else [])
                 in if RotateDay c \<noteq> 0 then
                      (case (if \<not> IsAbs e (Path c) then Abs e (Path c) else Inr (Path c)) of
                         Inl er \<Rightarrow> Inl er
                       | Inr fn \<Rightarrow>
                           (case rotatelogs_New e (fn @ ''.%Y%m%d'') fn (days (MaxAge c)) (days (RotateDay c)) of
                              Inl er \<Rightarrow> Inr (hooks @ [RotateSync None], Some er)
                            | Inr r \<Rightarrow> Inr (hooks @ [RotateSync (Some r)], None)))
                    else Inr (hooks, None)))
      else Inr ([], None))"

text \<open>Line 325, the choice of the encoder.\<close>

definition select_encoder :: "(string \<Rightarrow> string) \<Rightarrow> string \<Rightarrow> EncoderConfig \<Rightarrow> encoder" where
  "select_encoder unicode_lower fmt ec =
     (let l = ToLower unicode_lower fmt
      in if l = ''json'' then JSONEncoder ec
         else if l = ''fix'' then FixEncoder ec
         else ConsoleEncoder ec)"

definition encoderConfig :: "('k, 'w) log_Config \<Rightarrow> EncoderConfig" where
  "encoderConfig c =
     \<lparr>TimeKey = (if ForbitTime c then [] else ''time''),
      LevelKey = (if ForbitLevel c then [] else ''level''),
      NameKey = ''logger'',
      CallerKey = ''caller'',
      MessageKey = ''msg'',
      StacktraceKey = ''stacktrace'',
      LineEnding = [CHR 0x0A]\<rparr>"

text \<open>
  \<^verbatim>\<open>New\<close>. The test of \<^verbatim>\<open>err\<close> after \<^verbatim>\<open>ParseLevel\<close> reads a variable that is still nil
  and never returns. After the block of the path, \<^verbatim>\<open>err\<close> is not read again: the
  \<^verbatim>\<open>err\<close> of \<^verbatim>\<open>NewKafkaCore\<close> is a new variable, and the last line returns nil.
\<close>

definition New :: "('k, 'w) env \<Rightarrow> ('k, 'w) log_Config \<Rightarrow> ('k, 'w) Logger option \<times> error option" where
  "New e c =
     (let lvl = (if Level c \<noteq> [] then ParseLevel e (Level c) else 0)
      in case path_hooks e c of
           Inl er \<Rightarrow> (None, Some er)
         | Inr (hooks0, err0) \<Rightarrow>
             (let hooks = (if DisableStdout c = False then hooks0 @ [Stdout] else hooks0);
                  ec = encoderConfig c;
                  ecoder = select_encoder (unicode_ToLower e) (Format c) ec;
                  cores0 = [NewCore ecoder hooks lvl] @ map (\<lambda>w. WebHookCore w ec) (WebHook c)
              in case Kafka c of
                   None \<Rightarrow> (Some \<lparr>cores = cores0, addCaller = Caller c, config = c\<rparr>, None)
                 | Some k \<Rightarrow>
                     (case NewKafkaCore e c ec of
                        Some er \<Rightarrow> (None, Some er)
                      | None \<Rightarrow>
                          (Some \<lparr>cores = cores0 @ [KafkaCore k ec], addCaller = Caller c, config = c\<rparr>,
                           None))))"

text \<open>
  The package variables \<^verbatim>\<open>logger\<close> and \<^verbatim>\<open>sugger\<close> (\<open>None\<close> is the nil pointer), and
  \<^verbatim>\<open>Init\<close>, which assigns the first result of \<^verbatim>\<open>New\<close> to \<^verbatim>\<open>logger\<close> before it looks at
  the error. \<^verbatim>\<open>logger.Sugar()\<close> on a nil \<^verbatim>\<open>logger\<close> is a nil dereference.
\<close>

record ('k, 'w) globals =
  logger :: "('k, 'w) Logger option"
  sugger :: "('k, 'w) SugaredLogger option"

definition Init :: "('k, 'w) env \<Rightarrow> ('k, 'w) log_Config \<Rightarrow> ('k, 'w) globals \<Rightarrow> error option outcome \<times> ('k, 'w) globals" where
  "Init e c g =
     (case New e c of
        (l, er) \<Rightarrow>
          (let g1 = g\<lparr>logger := l\<rparr>
           in if er \<noteq> None then (Returns er, g1)
              else (case l of
                      None \<Rightarrow> (Panics (ValAny ''runtime error: invalid memory address or nil pointer dereference''), g1)
                    | Some lg \<Rightarrow> (Returns None, g1\<lparr>sugger := Some (Sugar lg)\<rparr>))))"

section \<open>Observations and example runs\<close>

text \<open>
  What a list of calls shows: the contexts \<^verbatim>\<open>BeginTx\<close> was called with, and the
  calls of \<^verbatim>\<open>context.WithTimeout\<close> with their parent and timeout.
\<close>

definition begun :: "call list \<Rightarrow> context list" where
  "begun cs = concat (map (\<lambda>c. case c of CallBeginTx x \<Rightarrow> [x] | _ \<Rightarrow> []) cs)"

definition derived :: "call list \<Rightarrow> (context \<times> int) list" where
  "derived cs = concat (map (\<lambda>c. case c of CallWithTimeout x d \<Rightarrow> [(x, d)] | _ \<Rightarrow> []) cs)"

text \<open>The encoder of the first core of a logger, the one \<^verbatim>\<open>zapcore.NewCore\<close> built.\<close>

definition primary_encoder :: "('k, 'w) Logger \<Rightarrow> encoder option" where
  "primary_encoder l = (case cores l of NewCore en hooks lvl # rest \<Rightarrow> Some en | _ \<Rightarrow> None)"

text \<open>
  Handles for the example runs: a transaction with given outcomes of \<^verbatim>\<open>Rollback\<close> and
  \<^verbatim>\<open>Commit\<close>, a connection whose \<^verbatim>\<open>BeginTx\<close> returns it, and a \<^verbatim>\<open>DataBase\<close> with a
  given \<^verbatim>\<open>TransTimeout\<close>.
\<close>

definition tx_of :: "unit outcome \<Rightarrow> error option outcome \<Rightarrow> tx" where
  "tx_of r c = \<lparr>Rollback = r, Commit = c\<rparr>"

definition gorm_of :: "tx \<Rightarrow> gorm_DB" where
  "gorm_of t =
     \<lparr>singularTable = False, logMode = False, maxOpenConns = None, maxIdleConns = None,
      connMaxLifetime = None, BeginTx = (\<lambda>c. Returns t)\<rparr>"

definition sql_config_of :: "string \<Rightarrow> int \<Rightarrow> sql_Config" where
  "sql_config_of dialect timeout =
     \<lparr>Debug = False, Dialect = dialect, URL = ''app:pw@/orders'', MaxOpenConns = 0, MaxIdleConns = 0,
      ConnMaxLifetime = 0, TransTimeout = timeout\<rparr>"

definition db_of :: "int \<Rightarrow> tx \<Rightarrow> DataBase" where
  "db_of timeout t =
     \<lparr>DB = gorm_of t,
      cfg = sql_config_of ''mysql'' timeout,
      goqu = \<lparr>goqu_dialect = ''mysql'', goqu_db = gorm_of t\<rparr>\<rparr>"

text \<open>
  A \<^verbatim>\<open>DataBase\<close> with a given \<^verbatim>\<open>BeginTx\<close>, and a \<^verbatim>\<open>BeginTx\<close> that tells contexts apart:
  for the context \<open>c\<close> it returns a transaction that commits, for any other context one
  whose commit fails.
\<close>

definition db_begin :: "int \<Rightarrow> (context \<Rightarrow> tx outcome) \<Rightarrow> DataBase" where
  "db_begin timeout b =
     \<lparr>DB = \<lparr>singularTable = True, logMode = False, maxOpenConns = None, maxIdleConns = None,
             connMaxLifetime = None, BeginTx = b\<rparr>,
      cfg = sql_config_of ''mysql'' timeout,
      goqu = \<lparr>goqu_dialect = ''mysql'',
              goqu_db = \<lparr>singularTable = True, logMode = False, maxOpenConns = None,
                         maxIdleConns = None, connMaxLifetime = None, BeginTx = b\<rparr>\<rparr>\<rparr>"

definition begin_at :: "context \<Rightarrow> context \<Rightarrow> tx outcome" where
  "begin_at c x =
     (if x = c then Returns (tx_of (Returns ()) (Returns None))
      else Returns (tx_of (Returns ()) (Returns (Some (Err ''begun with another context'')))))"

text \<open>A \<^verbatim>\<open>gorm.Open\<close> that knows one dialect.\<close>

definition mysql_only :: "string \<Rightarrow> string \<Rightarrow> error + gorm_DB" where
  "mysql_only dialect url =
     (if dialect = ''mysql'' then Inr (gorm_of (tx_of (Returns ()) (Returns None)))
      else Inl (Err ''sql: unknown driver''))"

text \<open>
  A logger configuration with a path, a format and a rotation interval, everything else
  zero; and an environment with given \<^verbatim>\<open>os.Stat\<close> and \<^verbatim>\<open>os.MkdirAll\<close>, in which
  \<^verbatim>\<open>rotatelogs.New\<close> rejects the one pattern with the unknown verb \<^verbatim>\<open>%Q\<close>.
\<close>

definition log_config_of :: "string \<Rightarrow> string \<Rightarrow> int \<Rightarrow> (unit, unit) log_Config" where
  "log_config_of path fmt every =
     \<lparr>Path = path, Level = [], Fields = Map.empty, MaxSize = 0, MaxBackups = 0, MaxAge = 0,
      DisableStdout = False, Compress = False, Format = fmt, ForbitTime = False,
      ForbitLevel = False, Caller = False, Prefix = [], Kafka = None, WebHook = [],
      RotateDay = every\<rparr>"

definition env_of :: "(string \<Rightarrow> error option) \<Rightarrow> (string \<Rightarrow> error option) \<Rightarrow> (unit, unit) env" where
  "env_of stat mkdir =
     \<lparr>Stat = stat, MkdirAll = mkdir,
      IsAbs = (\<lambda>p. take 1 p = ''/''),
      Abs = (\<lambda>p. Inr (''/srv/'' @ p)),
      rotatelogs_New = (\<lambda>pattern link age every.
        if pattern = ''/var/log/app%Q.log.%Y%m%d'' then Inl (Err ''invalid strftime pattern'')
        else Inr (RotateLogs pattern link age every)),
      UnmarshalText = (\<lambda>s. if s = ''debug'' then Some (- 1) else None),
      NewKafkaCore = (\<lambda>c ec. None),
      unicode_ToLower = (\<lambda>s. s)\<rparr>"

definition present :: "string \<Rightarrow> error option" where
  "present path = None"

definition absent :: "string \<Rightarrow> error option" where
  "absent path = Some (ErrNotExist ''stat'' path)"

definition denied :: "string \<Rightarrow> error option" where
  "denied path = Some (Err (''mkdir '' @ path @ '': permission denied''))"


text \<open>
  A logger as \<^verbatim>\<open>New\<close> builds it from the zero configuration, and the package variables
  holding a logger and its sugared form.
\<close>

definition plain_logger :: "(unit, unit) Logger" where
  "plain_logger =
     \<lparr>cores = [NewCore (ConsoleEncoder (encoderConfig (log_config_of [] [] 0))) [Stdout] 0],
      addCaller = False,
      config = log_config_of [] [] 0\<rparr>"

definition globals_of :: "('k, 'w) Logger \<Rightarrow> ('k, 'w) globals" where
  "globals_of l = \<lparr>logger = Some l, sugger = Some (Sugar l)\<rparr>"

section \<open>The transaction executor: proofs\<close>

text \<open>The goroutine panics with nil only after \<^verbatim>\<open>panic(nil)\<close> under \<^verbatim>\<open>panicnil=1\<close>.\<close>

lemma gopanic_nil_iff: "gopanic pn v = NilAny \<longleftrightarrow> pn \<and> v = NilAny"
  by (auto simp add: gopanic_def PanicNilError_def)

lemma gopanic_value: "v \<noteq> NilAny \<Longrightarrow> gopanic pn v = v"
  by (simp add: gopanic_def)

lemma recovered_frame:
  "ret \<noteq> NilAny \<Longrightarrow>
   deferred_recover stk \<lparr>err = e, panicking = Some ret, calls = cs\<rparr> =
     \<lparr>err = Some (panic_error stk ret), panicking = None, calls = cs\<rparr>"
  by (simp add: deferred_recover_def recover_def Let_def)

lemma swallowed_frame:
  "deferred_recover stk \<lparr>err = e, panicking = Some NilAny, calls = cs\<rparr> =
     \<lparr>err = e, panicking = None, calls = cs\<rparr>"
  by (simp add: deferred_recover_def recover_def Let_def)

lemma returned_frame:
  "deferred_recover stk \<lparr>err = e, panicking = None, calls = cs\<rparr> =
     \<lparr>err = e, panicking = None, calls = cs\<rparr>"
  by (simp add: deferred_recover_def recover_def Let_def)

lemma deferred_recover_calls: "calls (deferred_recover stk fr) = calls fr"
  by (simp add: deferred_recover_def Let_def)

lemma deferred_recover_stops: "panicking (deferred_recover stk fr) = None"
  by (simp add: deferred_recover_def Let_def)

lemma snd_frame_result: "snd (frame_result fr) = calls fr"
  by (simp add: frame_result_def split: option.splits)

lemma tx_context_cases:
  "(TransTimeout (cfg db) \<noteq> 0 \<and> \<not> hasDeadline ctx \<and>
      tx_context db ctx = WithTimeout ctx (TransTimeout (cfg db)))
   \<or> (\<not> (TransTimeout (cfg db) \<noteq> 0 \<and> \<not> hasDeadline ctx) \<and> tx_context db ctx = ctx)"
  by (simp add: tx_context_def)

text \<open>The result and the calls of \<^verbatim>\<open>TransactionCtx\<close>, by what \<^verbatim>\<open>BeginTx\<close> does.\<close>

lemma TransactionCtx_begun:
  assumes "BeginTx (DB db) (tx_context db ctx) = Returns t"
  shows "fst (TransactionCtx pn stk db ctx f) = Returns (err (deferred_recover stk (body pn t f)))"
  using tx_context_cases [of db ctx] assms
  by (auto simp add: TransactionCtx_def begin_and_run_def frame_result_def Let_def
      deferred_recover_stops)

lemma TransactionCtx_begin_panics:
  assumes "BeginTx (DB db) (tx_context db ctx) = Panics v"
  shows "fst (TransactionCtx pn stk db ctx f) = Panics (gopanic pn v)
     \<and> CallF \<notin> set (snd (TransactionCtx pn stk db ctx f))"
  using tx_context_cases [of db ctx] assms
  by (auto simp add: TransactionCtx_def begin_and_run_def frame_result_def Let_def)

lemma TransactionCtx_calls:
  assumes "BeginTx (DB db) (tx_context db ctx) = Returns t"
  shows "snd (TransactionCtx pn stk db ctx f) =
     (if TransTimeout (cfg db) \<noteq> 0 \<and> \<not> hasDeadline ctx
      then CallWithTimeout ctx (TransTimeout (cfg db)) # CallBeginTx (tx_context db ctx) #
           calls (body pn t f) @ [CallCancel (tx_context db ctx)]
      else CallBeginTx ctx # calls (body pn t f))"
  using tx_context_cases [of db ctx] assms
  by (auto simp add: TransactionCtx_def begin_and_run_def Let_def
      snd_frame_result deferred_recover_calls)

lemma body_calls_error:
  "f t = Returns (Some e) \<Longrightarrow> calls (body pn t f) = [CallF, CallRollback]"
  by (simp add: body_def split: outcome.splits)

lemma body_calls_success:
  "f t = Returns None \<Longrightarrow> calls (body pn t f) = [CallF, CallCommit]"
  by (simp add: body_def split: outcome.splits)

lemma body_calls_cases:
  "calls (body pn t f) = [CallF] \<or> calls (body pn t f) = [CallF, CallRollback] \<or>
   calls (body pn t f) = [CallF, CallCommit]"
  by (simp add: body_def split: outcome.splits)

text \<open>The named result after the deferred closure, for each way the body can end.\<close>

lemma err_f_panics:
  "f t = Panics v \<Longrightarrow>
   err (deferred_recover stk (body pn t f)) =
     (if gopanic pn v \<noteq> NilAny then Some (panic_error stk (gopanic pn v)) else None)"
  by (simp add: body_def recovered_frame swallowed_frame)

lemma err_rollback_panics:
  "f t = Returns (Some e) \<Longrightarrow> Rollback t = Panics v \<Longrightarrow>
   err (deferred_recover stk (body pn t f)) =
     (if gopanic pn v \<noteq> NilAny then Some (panic_error stk (gopanic pn v)) else Some e)"
  by (simp add: body_def recovered_frame swallowed_frame)

lemma err_rollback_returns:
  "f t = Returns (Some e) \<Longrightarrow> Rollback t = Returns u \<Longrightarrow>
   err (deferred_recover stk (body pn t f)) = Some e"
  by (simp add: body_def returned_frame)

lemma err_commit_panics:
  "f t = Returns None \<Longrightarrow> Commit t = Panics v \<Longrightarrow>
   err (deferred_recover stk (body pn t f)) =
     (if gopanic pn v \<noteq> NilAny then Some (panic_error stk (gopanic pn v)) else None)"
  by (simp add: body_def recovered_frame swallowed_frame)

lemma err_commit_returns:
  "f t = Returns None \<Longrightarrow> Commit t = Returns ce \<Longrightarrow>
   err (deferred_recover stk (body pn t f)) = ce"
  by (simp add: body_def returned_frame)

lemma BeginTx_db_of: "BeginTx (DB (db_of d t)) c = Returns t"
  by (simp add: db_of_def gorm_of_def)

lemma TransTimeout_db_of: "TransTimeout (cfg (db_of d t)) = d"
  by (simp add: db_of_def sql_config_of_def)

lemma BeginTx_db_begin: "BeginTx (DB (db_begin d b)) = b"
  by (simp add: db_begin_def)

lemma TransTimeout_db_begin: "TransTimeout (cfg (db_begin d b)) = d"
  by (simp add: db_begin_def sql_config_of_def)

lemma panic_error_has_value: "sublist (fmt_v ret) (error_text (panic_error stk ret))"
  unfolding panic_error_def error_text.simps sublist_def
  by (rule exI [of _ "''panic['' @ stack_buf stk @ ''] '' @ [CHR 0x0A] @ ''ret[''"],
      rule exI [of _ "'']''"]) simp

lemma panic_error_has_stack: "sublist (stack_buf stk) (error_text (panic_error stk ret))"
  unfolding panic_error_def error_text.simps sublist_def
  by (rule exI [of _ "''panic[''"],
      rule exI [of _ "''] '' @ [CHR 0x0A] @ ''ret['' @ fmt_v ret @ '']''"]) simp

text \<open>
  C1, as amended. When the unit of work panics with \<open>v\<close>, \<^verbatim>\<open>TransactionCtx\<close> returns and
  never passes the panic on. Whenever the value \<^verbatim>\<open>recover\<close> reports, \<open>gopanic pn v\<close>, is
  not nil, the result is a non-nil error: the one formatted from that value and from the
  captured stack bytes, and its text contains the \<^verbatim>\<open>%v\<close> form of the value and the
  captured stack trace. The reported value is nil only for \<^verbatim>\<open>panic(nil)\<close> under
  \<^verbatim>\<open>panicnil=1\<close>, and it is \<open>v\<close> itself whenever \<open>v\<close> is not nil.
\<close>

theorem TransactionCtx_recovers_panic:
  assumes "BeginTx (DB db) (tx_context db ctx) = Returns t" and "f t = Panics v"
  shows "(\<forall>w. fst (TransactionCtx pn stk db ctx f) \<noteq> Panics w)
     \<and> (gopanic pn v \<noteq> NilAny \<longrightarrow>
          fst (TransactionCtx pn stk db ctx f) = Returns (Some (panic_error stk (gopanic pn v)))
          \<and> sublist (fmt_v (gopanic pn v)) (error_text (panic_error stk (gopanic pn v)))
          \<and> sublist (stack_buf stk) (error_text (panic_error stk (gopanic pn v))))
     \<and> (gopanic pn v = NilAny \<longleftrightarrow> pn \<and> v = NilAny)
     \<and> (v \<noteq> NilAny \<longrightarrow> gopanic pn v = v)"
proof -
  have r: "fst (TransactionCtx pn stk db ctx f) =
      Returns (if gopanic pn v \<noteq> NilAny then Some (panic_error stk (gopanic pn v)) else None)"
    by (simp only: TransactionCtx_begun [OF assms(1)] err_f_panics [of f t v, OF assms(2)])
  show ?thesis
    using r panic_error_has_value panic_error_has_stack gopanic_nil_iff [of pn v]
      gopanic_value [of v pn]
    by simp
qed

theorem TransactionCtx_recovers_panic_witness:
  "fst (TransactionCtx True ''goroutine 1 [running]:'' (db_of 5000000000 (tx_of (Returns ()) (Returns None)))
          Background (\<lambda>t. Panics (ValAny ''boom'')))
     = Returns (Some (panic_error ''goroutine 1 [running]:'' (ValAny ''boom'')))
   \<and> sublist ''boom'' (error_text (panic_error ''goroutine 1 [running]:'' (ValAny ''boom'')))
   \<and> sublist ''goroutine 1 [running]:''
        (error_text (panic_error ''goroutine 1 [running]:'' (ValAny ''boom'')))"
  using TransactionCtx_recovers_panic [of "db_of 5000000000 (tx_of (Returns ()) (Returns None))" Background
      "tx_of (Returns ()) (Returns None)" "\<lambda>t. Panics (ValAny ''boom'')" "ValAny ''boom''"
      True "''goroutine 1 [running]:''"]
  by (simp add: BeginTx_db_of gopanic_def stack_buf_def)

text \<open>
  C1 as stated fails: under \<^verbatim>\<open>panicnil=1\<close> the unit of work runs \<^verbatim>\<open>panic(nil)\<close>,
  \<^verbatim>\<open>recover\<close> returns nil, the test of line 133 fails and \<^verbatim>\<open>TransactionCtx\<close> returns a
  nil error, although it neither committed nor rolled back.
\<close>

theorem TransactionCtx_nil_panic_returns_nil:
  "fst (TransactionCtx True ''goroutine 1 [running]:'' (db_of 0 (tx_of (Returns ()) (Returns None)))
          Background (\<lambda>t. Panics NilAny)) = Returns None
   \<and> snd (TransactionCtx True ''goroutine 1 [running]:'' (db_of 0 (tx_of (Returns ()) (Returns None)))
          Background (\<lambda>t. Panics NilAny)) = [CallBeginTx Background, CallF]"
  by (simp add: TransactionCtx_def TransTimeout_db_of begin_and_run_def BeginTx_db_of body_def
      deferred_recover_def recover_def gopanic_def frame_result_def Let_def)

text \<open>
  C2, as amended. When the unit of work returns a non-nil error \<open>e\<close>, \<^verbatim>\<open>TransactionCtx\<close>
  calls \<^verbatim>\<open>Rollback\<close> exactly once and never calls \<^verbatim>\<open>Commit\<close>. If \<^verbatim>\<open>Rollback\<close> returns, the
  result is exactly \<open>e\<close>, and so it is if \<^verbatim>\<open>Rollback\<close> panics and \<^verbatim>\<open>recover\<close> reports nil.
  If \<^verbatim>\<open>Rollback\<close> panics and \<^verbatim>\<open>recover\<close> reports a value that is not nil, the deferred
  closure replaces \<open>e\<close> by the error formatted from that value.
\<close>

theorem TransactionCtx_rollback_on_error:
  assumes "BeginTx (DB db) (tx_context db ctx) = Returns t" and "f t = Returns (Some e)"
  shows "count_list (snd (TransactionCtx pn stk db ctx f)) CallRollback = 1
     \<and> count_list (snd (TransactionCtx pn stk db ctx f)) CallCommit = 0
     \<and> (Rollback t = Returns () \<longrightarrow> fst (TransactionCtx pn stk db ctx f) = Returns (Some e))
     \<and> (\<forall>v. Rollback t = Panics v \<and> gopanic pn v = NilAny \<longrightarrow>
           fst (TransactionCtx pn stk db ctx f) = Returns (Some e))
     \<and> (\<forall>v. Rollback t = Panics v \<and> gopanic pn v \<noteq> NilAny \<longrightarrow>
           fst (TransactionCtx pn stk db ctx f) = Returns (Some (panic_error stk (gopanic pn v))))"
proof -
  have c: "calls (body pn t f) = [CallF, CallRollback]"
    using assms(2) by (rule body_calls_error)
  have n: "count_list (snd (TransactionCtx pn stk db ctx f)) CallRollback = 1
     \<and> count_list (snd (TransactionCtx pn stk db ctx f)) CallCommit = 0"
    by (simp add: TransactionCtx_calls [OF assms(1)] c)
  have r: "Rollback t = Returns () \<Longrightarrow> fst (TransactionCtx pn stk db ctx f) = Returns (Some e)"
    using assms(2) by (simp add: TransactionCtx_begun [OF assms(1)] err_rollback_returns [of f t e])
  have p: "Rollback t = Panics v \<Longrightarrow>
      fst (TransactionCtx pn stk db ctx f) =
        Returns (if gopanic pn v \<noteq> NilAny then Some (panic_error stk (gopanic pn v)) else Some e)" for v
    by (simp only: TransactionCtx_begun [OF assms(1)] err_rollback_panics [of f t e, OF assms(2)])
  show ?thesis using n r p by simp
qed

theorem TransactionCtx_rollback_on_error_witness:
  "count_list (snd (TransactionCtx False [] (db_of 0 (tx_of (Returns ()) (Returns None))) Background
      (\<lambda>t. Returns (Some (Err ''no rows''))))) CallRollback = 1
   \<and> count_list (snd (TransactionCtx False [] (db_of 0 (tx_of (Returns ()) (Returns None))) Background
      (\<lambda>t. Returns (Some (Err ''no rows''))))) CallCommit = 0
   \<and> fst (TransactionCtx False [] (db_of 0 (tx_of (Returns ()) (Returns None))) Background
      (\<lambda>t. Returns (Some (Err ''no rows'')))) = Returns (Some (Err ''no rows''))"
  using TransactionCtx_rollback_on_error [of "db_of 0 (tx_of (Returns ()) (Returns None))" Background
      "tx_of (Returns ()) (Returns None)" "\<lambda>t. Returns (Some (Err ''no rows''))" "Err ''no rows''"
      False "[]"]
  by (simp add: BeginTx_db_of tx_of_def)

text \<open>
  C2 as stated fails: the unit of work returns the error \<^verbatim>\<open>no rows\<close>, \<^verbatim>\<open>Rollback\<close>
  panics, and \<^verbatim>\<open>TransactionCtx\<close> returns the error of the panic, not \<^verbatim>\<open>no rows\<close>. The
  setting \<^verbatim>\<open>panicnil\<close> plays no part, the value of the panic is not nil.
\<close>

theorem TransactionCtx_rollback_panic_replaces_error:
  "fst (TransactionCtx False [] (db_of 0 (tx_of (Panics (ValAny ''bad connection'')) (Returns None))) Background
      (\<lambda>t. Returns (Some (Err ''no rows''))))
     = Returns (Some (Err (''panic[] '' @ [CHR 0x0A] @ ''ret[bad connection]'')))
   \<and> fst (TransactionCtx True [] (db_of 0 (tx_of (Panics (ValAny ''bad connection'')) (Returns None))) Background
      (\<lambda>t. Returns (Some (Err ''no rows''))))
     = Returns (Some (Err (''panic[] '' @ [CHR 0x0A] @ ''ret[bad connection]'')))
   \<and> Returns (Some (Err (''panic[] '' @ [CHR 0x0A] @ ''ret[bad connection]'')))
     \<noteq> (Returns (Some (Err ''no rows'')) :: error option outcome)"
  by (simp add: TransactionCtx_def TransTimeout_db_of begin_and_run_def BeginTx_db_of body_def tx_of_def
      deferred_recover_def recover_def gopanic_def frame_result_def panic_error_def stack_buf_def Let_def)

text \<open>
  C3. When the unit of work returns nil, \<^verbatim>\<open>TransactionCtx\<close> calls \<^verbatim>\<open>Commit\<close> exactly once
  and never calls \<^verbatim>\<open>Rollback\<close>, and it returns the error of the commit, whatever it is:
  nil when the commit succeeded.
\<close>

theorem TransactionCtx_commit_on_success:
  assumes "BeginTx (DB db) (tx_context db ctx) = Returns t" and "f t = Returns None"
  shows "count_list (snd (TransactionCtx pn stk db ctx f)) CallCommit = 1
     \<and> count_list (snd (TransactionCtx pn stk db ctx f)) CallRollback = 0
     \<and> (\<forall>ce. Commit t = Returns ce \<longrightarrow> fst (TransactionCtx pn stk db ctx f) = Returns ce)"
proof -
  have c: "calls (body pn t f) = [CallF, CallCommit]"
    using assms(2) by (rule body_calls_success)
  have n: "count_list (snd (TransactionCtx pn stk db ctx f)) CallCommit = 1
     \<and> count_list (snd (TransactionCtx pn stk db ctx f)) CallRollback = 0"
    by (simp add: TransactionCtx_calls [OF assms(1)] c)
  have r: "Commit t = Returns ce \<Longrightarrow> fst (TransactionCtx pn stk db ctx f) = Returns ce" for ce
    using assms(2) by (simp add: TransactionCtx_begun [OF assms(1)] err_commit_returns [of f t])
  show ?thesis using n r by blast
qed

theorem TransactionCtx_commit_on_success_witness:
  "count_list (snd (TransactionCtx False [] (db_of 7000000000 (tx_of (Returns ()) (Returns (Some (Err ''deadlock'')))))
      Background (\<lambda>t. Returns None))) CallCommit = 1
   \<and> count_list (snd (TransactionCtx False [] (db_of 7000000000 (tx_of (Returns ()) (Returns (Some (Err ''deadlock'')))))
      Background (\<lambda>t. Returns None))) CallRollback = 0
   \<and> fst (TransactionCtx False [] (db_of 7000000000 (tx_of (Returns ()) (Returns (Some (Err ''deadlock'')))))
      Background (\<lambda>t. Returns None)) = Returns (Some (Err ''deadlock''))"
  using TransactionCtx_commit_on_success [of "db_of 7000000000 (tx_of (Returns ()) (Returns (Some (Err ''deadlock''))))"
      Background "tx_of (Returns ()) (Returns (Some (Err ''deadlock'')))" "\<lambda>t. Returns None" False "[]"]
  by (simp add: BeginTx_db_of tx_of_def)

lemma begun_body: "begun (calls (body pn t f)) = []"
  using body_calls_cases [of pn t f] by (auto simp add: begun_def)

lemma derived_body: "derived (calls (body pn t f)) = []"
  using body_calls_cases [of pn t f] by (auto simp add: derived_def)

lemma begun_begin_and_run: "begun (calls (begin_and_run pn stk db c f)) = [c]"
  by (simp add: begin_and_run_def Let_def begun_def [of "_ # _"] begun_body [unfolded begun_def]
      deferred_recover_calls split: outcome.splits)

lemma derived_begin_and_run: "derived (calls (begin_and_run pn stk db c f)) = []"
  by (simp add: begin_and_run_def Let_def derived_def [of "_ # _"] derived_body [unfolded derived_def]
      deferred_recover_calls split: outcome.splits)

lemma WithTimeout_neq: "WithTimeout c d \<noteq> c"
  by (induction c) auto

lemma TransactionCtx_begun_list:
  "begun (snd (TransactionCtx pn stk db ctx f)) = [tx_context db ctx]"
proof -
  have b: "begun (CallWithTimeout x d # cs @ [CallCancel y]) = begun cs" for x d cs y
    by (simp add: begun_def)
  show ?thesis
    by (simp add: TransactionCtx_def tx_context_def Let_def snd_frame_result b begun_begin_and_run)
qed

lemma TransactionCtx_derived_list:
  "derived (snd (TransactionCtx pn stk db ctx f)) =
     (if \<not> hasDeadline ctx \<and> TransTimeout (cfg db) \<noteq> 0 then [(ctx, TransTimeout (cfg db))] else [])"
proof -
  have d: "derived (CallWithTimeout x d # cs @ [CallCancel y]) = (x, d) # derived cs" for x d cs y
    by (simp add: derived_def)
  show ?thesis
    by (simp add: TransactionCtx_def Let_def snd_frame_result d derived_begin_and_run)
qed

text \<open>
  C4. The context of the transaction, \<open>tx_context db ctx\<close>, is the context derived by
  \<^verbatim>\<open>context.WithTimeout\<close> from the caller's context and the configured \<^verbatim>\<open>TransTimeout\<close>
  exactly when the caller's context has no deadline and \<^verbatim>\<open>TransTimeout\<close> is not zero, and
  it is the caller's context itself in every other case; the two are never equal.
  \<^verbatim>\<open>TransactionCtx\<close> calls \<^verbatim>\<open>context.WithTimeout\<close> in the first case only, and it calls
  \<^verbatim>\<open>BeginTx\<close> once, with that context. What \<^verbatim>\<open>BeginTx\<close> does for that context decides the
  run: its panic is the panic of \<^verbatim>\<open>TransactionCtx\<close> and the unit of work is not called,
  and the transaction it returns is the one the unit of work receives and the one that
  is rolled back or committed.
\<close>

theorem TransactionCtx_timeout_context:
  "tx_context db ctx =
     (if \<not> hasDeadline ctx \<and> TransTimeout (cfg db) \<noteq> 0
      then WithTimeout ctx (TransTimeout (cfg db)) else ctx)
   \<and> WithTimeout ctx (TransTimeout (cfg db)) \<noteq> ctx
   \<and> begun (snd (TransactionCtx pn stk db ctx f)) = [tx_context db ctx]
   \<and> derived (snd (TransactionCtx pn stk db ctx f)) =
     (if \<not> hasDeadline ctx \<and> TransTimeout (cfg db) \<noteq> 0
      then [(ctx, TransTimeout (cfg db))] else [])
   \<and> (\<forall>v. BeginTx (DB db) (tx_context db ctx) = Panics v \<longrightarrow>
         fst (TransactionCtx pn stk db ctx f) = Panics (gopanic pn v)
         \<and> CallF \<notin> set (snd (TransactionCtx pn stk db ctx f)))
   \<and> (\<forall>t e. BeginTx (DB db) (tx_context db ctx) = Returns t \<and> f t = Returns (Some e)
           \<and> Rollback t = Returns () \<longrightarrow>
         fst (TransactionCtx pn stk db ctx f) = Returns (Some e))
   \<and> (\<forall>t ce. BeginTx (DB db) (tx_context db ctx) = Returns t \<and> f t = Returns None
           \<and> Commit t = Returns ce \<longrightarrow>
         fst (TransactionCtx pn stk db ctx f) = Returns ce)"
proof -
  have a: "tx_context db ctx =
     (if \<not> hasDeadline ctx \<and> TransTimeout (cfg db) \<noteq> 0
      then WithTimeout ctx (TransTimeout (cfg db)) else ctx)"
    by (simp add: tx_context_def)
  have p: "BeginTx (DB db) (tx_context db ctx) = Panics v \<Longrightarrow>
      fst (TransactionCtx pn stk db ctx f) = Panics (gopanic pn v)
      \<and> CallF \<notin> set (snd (TransactionCtx pn stk db ctx f))" for v
    by (rule TransactionCtx_begin_panics)
  have r: "BeginTx (DB db) (tx_context db ctx) = Returns t \<Longrightarrow> f t = Returns (Some e) \<Longrightarrow>
      Rollback t = Returns () \<Longrightarrow> fst (TransactionCtx pn stk db ctx f) = Returns (Some e)" for t e
    by (simp add: TransactionCtx_begun err_rollback_returns)
  have c: "BeginTx (DB db) (tx_context db ctx) = Returns t \<Longrightarrow> f t = Returns None \<Longrightarrow>
      Commit t = Returns ce \<Longrightarrow> fst (TransactionCtx pn stk db ctx f) = Returns ce" for t ce
    by (simp add: TransactionCtx_begun err_commit_returns)
  show ?thesis
    using a WithTimeout_neq [of ctx "TransTimeout (cfg db)"]
      TransactionCtx_begun_list [of pn stk db ctx f] TransactionCtx_derived_list [of pn stk db ctx f]
      p r c
    by blast
qed

text \<open>
  Three runs on handles whose \<^verbatim>\<open>BeginTx\<close> gives a transaction that commits for one
  context only, with a timeout of five seconds and with none.
\<close>

theorem TransactionCtx_timeout_context_witness:
  "begun (snd (TransactionCtx False [] (db_begin 5000000000 (begin_at (WithTimeout Background 5000000000)))
        Background (\<lambda>t. Returns None))) = [WithTimeout Background 5000000000]
   \<and> derived (snd (TransactionCtx False [] (db_begin 5000000000 (begin_at (WithTimeout Background 5000000000)))
        Background (\<lambda>t. Returns None))) = [(Background, 5000000000)]
   \<and> fst (TransactionCtx False [] (db_begin 5000000000 (begin_at (WithTimeout Background 5000000000)))
        Background (\<lambda>t. Returns None)) = Returns None
   \<and> begun (snd (TransactionCtx False [] (db_begin 5000000000 (begin_at (WithDeadline Background 90)))
        (WithDeadline Background 90) (\<lambda>t. Returns None))) = [WithDeadline Background 90]
   \<and> derived (snd (TransactionCtx False [] (db_begin 5000000000 (begin_at (WithDeadline Background 90)))
        (WithDeadline Background 90) (\<lambda>t. Returns None))) = []
   \<and> fst (TransactionCtx False [] (db_begin 5000000000 (begin_at (WithDeadline Background 90)))
        (WithDeadline Background 90) (\<lambda>t. Returns None)) = Returns None
   \<and> begun (snd (TransactionCtx False [] (db_begin 0 (begin_at Background))
        Background (\<lambda>t. Returns None))) = [Background]
   \<and> derived (snd (TransactionCtx False [] (db_begin 0 (begin_at Background))
        Background (\<lambda>t. Returns None))) = []
   \<and> fst (TransactionCtx False [] (db_begin 0 (begin_at Background))
        Background (\<lambda>t. Returns None)) = Returns None"
proof -
  have run:
    "begun (snd (TransactionCtx False [] (db_begin d (begin_at c)) ctx (\<lambda>t. Returns None))) = [c]
     \<and> derived (snd (TransactionCtx False [] (db_begin d (begin_at c)) ctx (\<lambda>t. Returns None)))
         = (if \<not> hasDeadline ctx \<and> d \<noteq> 0 then [(ctx, d)] else [])
     \<and> fst (TransactionCtx False [] (db_begin d (begin_at c)) ctx (\<lambda>t. Returns None)) = Returns None"
    if c: "tx_context (db_begin d (begin_at c)) ctx = c" for d c ctx
  proof -
    have b: "BeginTx (DB (db_begin d (begin_at c))) (tx_context (db_begin d (begin_at c)) ctx)
        = Returns (tx_of (Returns ()) (Returns None))"
      by (simp add: c BeginTx_db_begin begin_at_def)
    have k: "Commit (tx_of (Returns ()) (Returns None)) = Returns None"
      by (simp add: tx_of_def)
    note T = TransactionCtx_timeout_context [of "db_begin d (begin_at c)" ctx False "[]" "\<lambda>t. Returns None"]
    from T have 1: "begun (snd (TransactionCtx False [] (db_begin d (begin_at c)) ctx (\<lambda>t. Returns None)))
        = [tx_context (db_begin d (begin_at c)) ctx]"
      by blast
    from T have 2: "derived (snd (TransactionCtx False [] (db_begin d (begin_at c)) ctx (\<lambda>t. Returns None)))
        = (if \<not> hasDeadline ctx \<and> TransTimeout (cfg (db_begin d (begin_at c))) \<noteq> 0
           then [(ctx, TransTimeout (cfg (db_begin d (begin_at c))))] else [])"
      by blast
    from T b k have 3: "fst (TransactionCtx False [] (db_begin d (begin_at c)) ctx (\<lambda>t. Returns None))
        = Returns None"
      by blast
    show ?thesis using 1 2 3 by (simp add: c TransTimeout_db_begin)
  qed
  have a: "tx_context (db_begin 5000000000 (begin_at (WithTimeout Background 5000000000))) Background
      = WithTimeout Background 5000000000"
    by (simp add: tx_context_def TransTimeout_db_begin)
  have b: "tx_context (db_begin 5000000000 (begin_at (WithDeadline Background 90))) (WithDeadline Background 90)
      = WithDeadline Background 90"
    by (simp add: tx_context_def TransTimeout_db_begin)
  have c: "tx_context (db_begin 0 (begin_at Background)) Background = Background"
    by (simp add: tx_context_def TransTimeout_db_begin)
  show ?thesis using run [OF a] run [OF b] run [OF c] by simp
qed

text \<open>
  C8, as amended. The deferred closure covers everything after \<^verbatim>\<open>BeginTx\<close> has returned:
  whatever the unit of work, \<^verbatim>\<open>Rollback\<close> and \<^verbatim>\<open>Commit\<close> do, \<^verbatim>\<open>TransactionCtx\<close> returns
  and does not panic. A panic of the unit of work, a panic of \<^verbatim>\<open>Rollback\<close> after a failed
  unit of work and a panic of \<^verbatim>\<open>Commit\<close> after a successful one each end as the error
  formatted from the recovered value, whenever that value is not nil.
\<close>

theorem TransactionCtx_no_panic_after_begin:
  assumes "BeginTx (DB db) (tx_context db ctx) = Returns t"
  shows "(\<forall>w. fst (TransactionCtx pn stk db ctx f) \<noteq> Panics w)
     \<and> (\<forall>v. f t = Panics v \<and> gopanic pn v \<noteq> NilAny \<longrightarrow>
           fst (TransactionCtx pn stk db ctx f) = Returns (Some (panic_error stk (gopanic pn v))))
     \<and> (\<forall>e v. f t = Returns (Some e) \<and> Rollback t = Panics v \<and> gopanic pn v \<noteq> NilAny \<longrightarrow>
           fst (TransactionCtx pn stk db ctx f) = Returns (Some (panic_error stk (gopanic pn v))))
     \<and> (\<forall>v. f t = Returns None \<and> Commit t = Panics v \<and> gopanic pn v \<noteq> NilAny \<longrightarrow>
           fst (TransactionCtx pn stk db ctx f) = Returns (Some (panic_error stk (gopanic pn v))))"
proof -
  have r: "fst (TransactionCtx pn stk db ctx f) = Returns (err (deferred_recover stk (body pn t f)))"
    by (rule TransactionCtx_begun [OF assms])
  have a: "f t = Panics v \<Longrightarrow> gopanic pn v \<noteq> NilAny \<Longrightarrow>
      err (deferred_recover stk (body pn t f)) = Some (panic_error stk (gopanic pn v))" for v
    by (simp add: err_f_panics)
  have b: "f t = Returns (Some e) \<Longrightarrow> Rollback t = Panics v \<Longrightarrow> gopanic pn v \<noteq> NilAny \<Longrightarrow>
      err (deferred_recover stk (body pn t f)) = Some (panic_error stk (gopanic pn v))" for e v
    by (simp add: err_rollback_panics)
  have c: "f t = Returns None \<Longrightarrow> Commit t = Panics v \<Longrightarrow> gopanic pn v \<noteq> NilAny \<Longrightarrow>
      err (deferred_recover stk (body pn t f)) = Some (panic_error stk (gopanic pn v))" for v
    by (simp add: err_commit_panics)
  show ?thesis using r a b c by simp
qed

theorem TransactionCtx_no_panic_after_begin_witness:
  "fst (TransactionCtx True [] (db_of 5000000000 (tx_of (Returns ()) (Panics (ValAny ''driver gone'')))) Background
      (\<lambda>t. Returns None))
     = Returns (Some (panic_error [] (ValAny ''driver gone'')))
   \<and> fst (TransactionCtx True [] (db_of 5000000000 (tx_of (Panics (ValAny ''bad connection'')) (Returns None)))
      Background (\<lambda>t. Returns (Some (Err ''no rows''))))
     = Returns (Some (panic_error [] (ValAny ''bad connection'')))"
  using
    TransactionCtx_no_panic_after_begin [of "db_of 5000000000 (tx_of (Returns ()) (Panics (ValAny ''driver gone'')))"
      Background "tx_of (Returns ()) (Panics (ValAny ''driver gone''))" True "[]" "\<lambda>t. Returns None"]
    TransactionCtx_no_panic_after_begin [of "db_of 5000000000 (tx_of (Panics (ValAny ''bad connection'')) (Returns None))"
      Background "tx_of (Panics (ValAny ''bad connection'')) (Returns None)" True "[]"
      "\<lambda>t. Returns (Some (Err ''no rows''))"]
  by (simp add: BeginTx_db_of tx_of_def gopanic_def)

text \<open>
  C8 as stated fails: under \<^verbatim>\<open>panicnil=1\<close> the unit of work returns nil and \<^verbatim>\<open>Commit\<close>
  runs \<^verbatim>\<open>panic(nil)\<close>; the panic is recovered but not converted, and \<^verbatim>\<open>TransactionCtx\<close>
  returns a nil error and not a formatted one.
\<close>

theorem TransactionCtx_nil_panic_of_commit_not_converted:
  "fst (TransactionCtx True [] (db_of 0 (tx_of (Returns ()) (Panics NilAny))) Background
      (\<lambda>t. Returns None)) = Returns None
   \<and> fst (TransactionCtx True [] (db_of 0 (tx_of (Returns ()) (Panics NilAny))) Background
      (\<lambda>t. Returns None)) \<noteq> Returns (Some (panic_error [] NilAny))"
  by (simp add: TransactionCtx_def TransTimeout_db_of begin_and_run_def BeginTx_db_of body_def tx_of_def
      deferred_recover_def recover_def gopanic_def frame_result_def Let_def)

section \<open>\<^verbatim>\<open>Inject\<close>: proofs\<close>

text \<open>
  C7. \<^verbatim>\<open>Inject\<close> runs \<^verbatim>\<open>Open\<close> on the configuration it is given. If \<^verbatim>\<open>Open\<close> returns an
  error, \<^verbatim>\<open>Inject\<close> panics with that error and does not return; a panic that nothing
  recovers ends the process. If \<^verbatim>\<open>Open\<close> returns a handle and no error, \<^verbatim>\<open>Inject\<close>
  returns and \<^verbatim>\<open>DefaultDB\<close> is that handle.
\<close>

theorem Inject_panics_or_sets_DefaultDB:
  "(\<forall>h e. Open gorm_Open c = (h, Some e) \<longrightarrow>
       fst (Inject gorm_Open c d) = Panics (ErrAny e) \<and> (\<forall>u. fst (Inject gorm_Open c d) \<noteq> Returns u))
   \<and> (\<forall>k. Open gorm_Open c = (Some k, None) \<longrightarrow> Inject gorm_Open c d = (Returns (), Some k))"
  by (simp add: Inject_def)

theorem Inject_panics_or_sets_DefaultDB_witness:
  "fst (Inject mysql_only (sql_config_of ''oracle'' 0) None) = Panics (ErrAny (Err ''sql: unknown driver''))
   \<and> (\<exists>k. Inject mysql_only (sql_config_of ''mysql'' 0) None = (Returns (), Some k)
          \<and> cfg k = sql_config_of ''mysql'' 0 \<and> singularTable (DB k))"
proof -
  have f: "Open mysql_only (sql_config_of ''oracle'' 0) = (None, Some (Err ''sql: unknown driver''))"
    by (simp add: Open_def mysql_only_def sql_config_of_def)
  have s: "Open mysql_only (sql_config_of ''mysql'' 0) =
      (Some \<lparr>DB = (gorm_of (tx_of (Returns ()) (Returns None)))\<lparr>singularTable := True\<rparr>,
             cfg = sql_config_of ''mysql'' 0,
             goqu = \<lparr>goqu_dialect = ''mysql'',
                     goqu_db = (gorm_of (tx_of (Returns ()) (Returns None)))\<lparr>singularTable := True\<rparr>\<rparr>\<rparr>, None)"
    by (simp add: Open_def mysql_only_def sql_config_of_def Let_def)
  show ?thesis
    using Inject_panics_or_sets_DefaultDB [of mysql_only "sql_config_of ''oracle'' 0" None]
      Inject_panics_or_sets_DefaultDB [of mysql_only "sql_config_of ''mysql'' 0" None] f s
    by simp
qed

section \<open>The logger: proofs\<close>

lemma Split_no_sep: "sep \<notin> set s \<Longrightarrow> Split s sep = [s]"
  by (induction s) auto

lemma getDir_bare: "CHR ''/'' \<notin> set path \<Longrightarrow> getDir path = []"
  by (simp add: getDir_def Split_no_sep)

text \<open>On every path of \<^verbatim>\<open>New\<close> one of the two results is nil and the other is not.\<close>

lemma New_error_nil_logger: "snd (New e c) = Some er \<Longrightarrow> fst (New e c) = None"
  by (auto simp add: New_def Let_def split: sum.splits prod.splits option.splits if_splits)

lemma New_primary_encoder:
  "fst (New e c) = Some l \<Longrightarrow>
   primary_encoder l = Some (select_encoder (unicode_ToLower e) (Format c) (encoderConfig c))"
  by (auto simp add: New_def Let_def primary_encoder_def
      split: sum.splits prod.splits option.splits if_splits)

text \<open>
  C5 fails on the code at the daily-rotation sink. With the path \<^verbatim>\<open>/var/log/app%Q.log\<close>
  and a rotation interval of one day, in a system where the directory exists,
  \<^verbatim>\<open>rotatelogs.New\<close> returns an error; \<^verbatim>\<open>New\<close> appends the nil hook, leaves the error
  unread and returns a logger and a nil error.
\<close>

theorem New_drops_rotatelogs_error:
  "rotatelogs_New (env_of present present) ''/var/log/app%Q.log.%Y%m%d'' ''/var/log/app%Q.log''
       (days 0) (days 1)
     = Inl (Err ''invalid strftime pattern'')
   \<and> path_hooks (env_of present present) (log_config_of ''/var/log/app%Q.log'' [] 1)
     = Inr ([RotateSync None], Some (Err ''invalid strftime pattern''))
   \<and> New (env_of present present) (log_config_of ''/var/log/app%Q.log'' [] 1)
     = (Some \<lparr>cores = [NewCore (ConsoleEncoder (encoderConfig (log_config_of ''/var/log/app%Q.log'' [] 1)))
                          [RotateSync None, Stdout] 0],
              addCaller = False,
              config = log_config_of ''/var/log/app%Q.log'' [] 1\<rparr>,
        None)"
proof -
  have d: "getDir ''/var/log/app%Q.log'' = ''/var/log''"
    by (simp add: getDir_def)
  have r: "rotatelogs_New (env_of present present) ''/var/log/app%Q.log.%Y%m%d'' ''/var/log/app%Q.log''
       (days 0) (days 1) = Inl (Err ''invalid strftime pattern'')"
    by (simp add: env_of_def)
  have p: "path_hooks (env_of present present) (log_config_of ''/var/log/app%Q.log'' [] 1)
     = Inr ([RotateSync None], Some (Err ''invalid strftime pattern''))"
    using r
    by (simp add: path_hooks_def log_config_of_def d isPathNotExist_def os_Stat_def present_def
        env_of_def)
  have n: "New (env_of present present) (log_config_of ''/var/log/app%Q.log'' [] 1)
     = (Some \<lparr>cores = [NewCore (ConsoleEncoder (encoderConfig (log_config_of ''/var/log/app%Q.log'' [] 1)))
                          [RotateSync None, Stdout] 0],
              addCaller = False,
              config = log_config_of ''/var/log/app%Q.log'' [] 1\<rparr>,
        None)"
    by (simp add: New_def p select_encoder_def ToLower_def) (simp add: log_config_of_def)
  show ?thesis using r p n by simp
qed

text \<open>
  C6. In the logger \<^verbatim>\<open>New\<close> returns, the encoder is chosen by the lowercase form of the
  configured format: the JSON encoder when that is \<^verbatim>\<open>json\<close>, the fixed-width encoder
  when it is \<^verbatim>\<open>fix\<close>, the console encoder for every other string, the empty one
  included.
\<close>

theorem New_selects_encoder:
  assumes "fst (New e c) = Some l"
  shows "(ToLower (unicode_ToLower e) (Format c) = ''json'' \<longrightarrow>
            primary_encoder l = Some (JSONEncoder (encoderConfig c)))
     \<and> (ToLower (unicode_ToLower e) (Format c) = ''fix'' \<longrightarrow>
            primary_encoder l = Some (FixEncoder (encoderConfig c)))
     \<and> (ToLower (unicode_ToLower e) (Format c) \<noteq> ''json'' \<and>
        ToLower (unicode_ToLower e) (Format c) \<noteq> ''fix'' \<longrightarrow>
            primary_encoder l = Some (ConsoleEncoder (encoderConfig c)))
     \<and> (Format c = [] \<longrightarrow> primary_encoder l = Some (ConsoleEncoder (encoderConfig c)))"
  using New_primary_encoder [OF assms]
  by (auto simp add: select_encoder_def Let_def ToLower_def)

lemma ToLower_examples:
  "ToLower u ''JsOn'' = ''json''" "ToLower u ''FIX'' = ''fix''" "ToLower u ''Text'' = ''text''"
  unfolding ToLower_def lower_byte_def by code_simp+

lemma New_no_path:
  "New (env_of present present) (log_config_of [] fmt 0) =
     (Some \<lparr>cores = [NewCore (select_encoder (\<lambda>s. s) fmt (encoderConfig (log_config_of [] fmt 0)))
                         [Stdout] 0],
             addCaller = False,
             config = log_config_of [] fmt 0\<rparr>, None)"
  by (simp add: New_def path_hooks_def) (simp add: log_config_of_def env_of_def)

theorem New_selects_encoder_witness:
  "(\<exists>l. fst (New (env_of present present) (log_config_of [] ''JsOn'' 0)) = Some l
        \<and> primary_encoder l = Some (JSONEncoder (encoderConfig (log_config_of [] ''JsOn'' 0))))
   \<and> (\<exists>l. fst (New (env_of present present) (log_config_of [] ''FIX'' 0)) = Some l
        \<and> primary_encoder l = Some (FixEncoder (encoderConfig (log_config_of [] ''FIX'' 0))))
   \<and> (\<exists>l. fst (New (env_of present present) (log_config_of [] ''Text'' 0)) = Some l
        \<and> primary_encoder l = Some (ConsoleEncoder (encoderConfig (log_config_of [] ''Text'' 0))))
   \<and> (\<exists>l. fst (New (env_of present present) (log_config_of [] [] 0)) = Some l
        \<and> primary_encoder l = Some (ConsoleEncoder (encoderConfig (log_config_of [] [] 0))))"
proof -
  have f: "Format (log_config_of [] fmt 0) = fmt" for fmt
    by (simp add: log_config_of_def)
  have u: "ToLower (unicode_ToLower (env_of present present)) fmt = ToLower (\<lambda>s. s) fmt" for fmt
    by (simp add: env_of_def)
  have n: "\<exists>l. fst (New (env_of present present) (log_config_of [] fmt 0)) = Some l" for fmt
    by (simp add: New_no_path)
  show ?thesis
    using n [of "''JsOn''"] n [of "''FIX''"] n [of "''Text''"] n [of "[]"]
      New_selects_encoder [of "env_of present present" "log_config_of [] ''JsOn'' 0"]
      New_selects_encoder [of "env_of present present" "log_config_of [] ''FIX'' 0"]
      New_selects_encoder [of "env_of present present" "log_config_of [] ''Text'' 0"]
      New_selects_encoder [of "env_of present present" "log_config_of [] [] 0"]
    by (auto simp add: f u ToLower_examples)
qed

text \<open>
  C9. When \<^verbatim>\<open>New\<close> returns an error, \<^verbatim>\<open>Init\<close> returns that error, the package variable
  \<^verbatim>\<open>logger\<close> is nil afterwards, whatever it held before, and \<^verbatim>\<open>sugger\<close> holds what it
  held before.
\<close>

theorem Init_failure_globals:
  assumes "snd (New e c) = Some er"
  shows "fst (Init e c g) = Returns (Some er)
     \<and> logger (snd (Init e c g)) = None
     \<and> sugger (snd (Init e c g)) = sugger g"
proof -
  have "fst (New e c) = None" using assms by (rule New_error_nil_logger)
  with assms have "New e c = (None, Some er)" by (simp add: prod_eq_iff)
  then show ?thesis by (simp add: Init_def)
qed

theorem Init_failure_globals_witness:
  "fst (Init (env_of absent denied) (log_config_of ''/var/log/app.log'' [] 0) (globals_of plain_logger))
     = Returns (Some (Err ''mkdir /var/log: permission denied''))
   \<and> logger (globals_of plain_logger) = Some plain_logger
   \<and> logger (snd (Init (env_of absent denied) (log_config_of ''/var/log/app.log'' [] 0)
        (globals_of plain_logger))) = None
   \<and> sugger (snd (Init (env_of absent denied) (log_config_of ''/var/log/app.log'' [] 0)
        (globals_of plain_logger))) = Some (Sugar plain_logger)"
proof -
  have d: "getDir ''/var/log/app.log'' = ''/var/log''"
    by (simp add: getDir_def)
  have p: "path_hooks (env_of absent denied) (log_config_of ''/var/log/app.log'' [] 0)
      = Inl (Err ''mkdir /var/log: permission denied'')"
    by (simp add: path_hooks_def log_config_of_def d isPathNotExist_def os_Stat_def os_MkdirAll_def
        env_of_def absent_def denied_def)
  have h: "snd (New (env_of absent denied) (log_config_of ''/var/log/app.log'' [] 0))
      = Some (Err ''mkdir /var/log: permission denied'')"
    by (simp add: New_def p)
  show ?thesis
    using Init_failure_globals [OF h, of "globals_of plain_logger"]
    by (simp add: globals_of_def)
qed

text \<open>
  C10. For a path that is not empty and has no \<^verbatim>\<open>/\<close>, \<^verbatim>\<open>getDir\<close> is the empty string;
  \<^verbatim>\<open>New\<close> finds that the empty path does not exist, calls \<^verbatim>\<open>os.MkdirAll\<close> on it and
  returns the error of that call, with no logger.
\<close>

theorem New_bare_file_name_fails:
  assumes "Path c \<noteq> []" and "CHR ''/'' \<notin> set (Path c)"
  shows "getDir (Path c) = []
     \<and> isPathNotExist e (getDir (Path c))
     \<and> New e c = (None, os_MkdirAll e (getDir (Path c)))
     \<and> os_MkdirAll e (getDir (Path c)) = Some (ErrNotExist ''mkdir'' [])"
proof -
  have d: "getDir (Path c) = []" using assms(2) by (rule getDir_bare)
  have n: "isPathNotExist e []" by (simp add: isPathNotExist_def os_Stat_def)
  have m: "os_MkdirAll e [] = Some (ErrNotExist ''mkdir'' [])" by (simp add: os_MkdirAll_def)
  have p: "path_hooks e c = Inl (ErrNotExist ''mkdir'' [])"
    using assms(1) by (simp add: path_hooks_def d n m)
  show ?thesis by (simp add: d n m New_def p)
qed

theorem New_bare_file_name_fails_witness:
  "getDir ''app.log'' = []
   \<and> New (env_of present present) (log_config_of ''app.log'' ''json'' 0)
       = (None, Some (ErrNotExist ''mkdir'' []))"
proof -
  have p: "Path (log_config_of ''app.log'' ''json'' 0) = ''app.log''"
    by (simp add: log_config_of_def)
  have h: "Path (log_config_of ''app.log'' ''json'' 0) \<noteq> []"
    "CHR ''/'' \<notin> set (Path (log_config_of ''app.log'' ''json'' 0))"
    by (simp_all add: p)
  show ?thesis
    using New_bare_file_name_fails [OF h, of "env_of present present"]
    by (auto simp add: p)
qed

end
